theory Spec2Isabelle
  imports Main
begin

text \<open>
  The documentation hub server: \<open>determineDomain\<close> classifies a query by keywords,
  \<open>extractTopics\<close> collects topic labels and quoted terms, \<open>constructSpecificUrl\<close> maps the
  first topic to a URL, and the handler of the tool \<open>fetch-documentation\<close> composes the
  three and asks the resource of the domain for the page. The definitions follow the
  compiled server, the last of the three versions of \<open>index\<close>, which is the one that has
  all four.
\<close>

section \<open>Strings\<close>

text \<open>
  A JavaScript string is a sequence of UTF-16 code units. The model uses HOL strings, whose
  characters are the code units 0 to 255 (ASCII and Latin-1), so it covers every query made
  of such code units; \<open>length\<close> is the \<open>.length\<close> of the source. The two quote characters
  are named, since they delimit HOL string literals as well.
\<close>

definition dquote :: char where
  "dquote = CHR 0x22"

definition squote :: char where
  "squote = CHR 0x27"

text \<open>
  \<open>String.prototype.toLowerCase\<close> on code units below 256: the ASCII capitals and the
  Latin-1 capitals (U+00C0 to U+00DE without the multiplication sign U+00D7) move up by 32,
  every other code unit is its own lower case.
\<close>

definition toLowerChar :: "char \<Rightarrow> char" where
  "toLowerChar c =
     (let n = (of_char c :: nat)
      in if (65 \<le> n \<and> n \<le> 90) \<or> (192 \<le> n \<and> n \<le> 222 \<and> n \<noteq> 215)
         then char_of (n + 32) else c)"

definition toLowerCase :: "string \<Rightarrow> string" where
  "toLowerCase s = map toLowerChar s"

fun startsWith :: "string \<Rightarrow> string \<Rightarrow> bool" where
  "startsWith s [] = True"
| "startsWith [] (k # ks) = False"
| "startsWith (c # cs) (k # ks) = (c = k \<and> startsWith cs ks)"

text \<open>\<open>s.includes(k)\<close>: \<open>k\<close> occurs in \<open>s\<close> as a contiguous substring.\<close>

fun includesStr :: "string \<Rightarrow> string \<Rightarrow> bool" where
  "includesStr [] k = startsWith [] k"
| "includesStr (c # cs) k = (startsWith (c # cs) k \<or> includesStr cs k)"

section \<open>Property access on object literals\<close>

text \<open>
  \<open>obj[key]\<close> on an object literal finds the literal's own property, or else a property
  that every object inherits from \<open>Object.prototype\<close> (all of them functions or objects, hence
  truthy, and none of them with an enumerable own property or a \<open>handler\<close> property), or
  else \<open>undefined\<close>. The own properties are an association list in insertion order, which
  is the order \<open>Object.entries\<close> enumerates string keys in.
\<close>

datatype 'a property = Own 'a | Inherited | Undefined

definition objectPrototypeKeys :: "string list" where
  "objectPrototypeKeys =
     [''constructor'', ''__proto__'', ''hasOwnProperty'', ''isPrototypeOf'',
      ''propertyIsEnumerable'', ''toString'', ''toLocaleString'', ''valueOf'',
      ''__defineGetter__'', ''__defineSetter__'', ''__lookupGetter__'', ''__lookupSetter__'']"

definition getProperty :: "(string \<times> 'a) list \<Rightarrow> string \<Rightarrow> 'a property" where
  "getProperty obj key =
     (case map_of obj key of
        Some v \<Rightarrow> Own v
      | None \<Rightarrow> if key \<in> set objectPrototypeKeys then Inherited else Undefined)"

section \<open>determineDomain\<close>

definition domainKeywords :: "(string \<times> string list) list" where
  "domainKeywords =
     [(''react-docs'', [''react'', ''component'', ''jsx'', ''hook'', ''props'', ''state'']),
      (''node-docs'', [''node'', ''express'', ''npm'', ''package'', ''module'', ''require'']),
      (''python-docs'', [''python'', ''pip'', ''django'', ''flask'', ''pandas'', ''numpy''])]"

text \<open>The \<open>reduce\<close> over one domain's keywords: each keyword found adds one.\<close>

definition keywordScore :: "string \<Rightarrow> string list \<Rightarrow> nat" where
  "keywordScore queryLower keywords =
     foldl (\<lambda>count keyword. count + (if includesStr queryLower keyword then 1 else 0)) 0 keywords"

text \<open>The first loop fills \<open>scores\<close>, one entry per domain, in the order of \<open>domainKeywords\<close>.\<close>

definition computeScores :: "string \<Rightarrow> (string \<times> nat) list" where
  "computeScores queryLower =
     map (\<lambda>(domain, keywords). (domain, keywordScore queryLower keywords)) domainKeywords"

text \<open>One round of the second loop, on the pair \<open>(bestDomain, highestScore)\<close>.\<close>

definition bestStep :: "string \<times> nat \<Rightarrow> string \<times> nat \<Rightarrow> string \<times> nat" where
  "bestStep best entry =
     (case best of (bestDomain, highestScore) \<Rightarrow>
        (case entry of (domain, score) \<Rightarrow>
           if score > highestScore then (domain, score) else (bestDomain, highestScore)))"

text \<open>The order in which both loops visit the domains, and the entry \<open>scores[domain]\<close>.\<close>

definition domainOrder :: "string list" where
  "domainOrder = map fst domainKeywords"

definition domainScore :: "string \<Rightarrow> string \<Rightarrow> nat" where
  "domainScore query domain =
     (case map_of (computeScores (toLowerCase query)) domain of
        None \<Rightarrow> 0
      | Some score \<Rightarrow> score)"

definition determineDomain :: "string \<Rightarrow> string" where
  "determineDomain query =
     (let queryLower = toLowerCase query;
          scores = computeScores queryLower;
          (bestDomain, highestScore) = foldl bestStep (''general'', 0) scores
      in if highestScore > 0 then bestDomain else ''general'')"

section \<open>Regular expressions of the topic patterns\<close>

text \<open>
  The topic patterns are alternations of sequences of three kinds of atoms: a literal
  character (matched ignoring case, all patterns carry the flag \<open>i\<close>), \<open>\s*\<close> and \<open>\b\<close>.
  \<open>pattern.test\<close> only asks whether some match exists, so the model searches all choices.
\<close>

datatype atom = Lit char | WhiteStar | WordBoundary

type_synonym regex = "atom list list"

definition lit :: "string \<Rightarrow> atom list" where
  "lit s = map Lit s"

text \<open>
  Case folding of a regular expression without the flag \<open>u\<close>: the upper case of the code
  unit, unless that is not a single code unit or would turn a non-ASCII one into ASCII.
  The result is a code unit number, since two Latin-1 letters have their capitals outside.
\<close>

definition canonicalize :: "char \<Rightarrow> nat" where
  "canonicalize c =
     (let n = (of_char c :: nat)
      in if (97 \<le> n \<and> n \<le> 122) \<or> (224 \<le> n \<and> n \<le> 254 \<and> n \<noteq> 247) then n - 32
         else if n = 181 then 924
         else if n = 255 then 376
         else n)"

text \<open>\<open>\s\<close> on code units below 256: tab, line feed, vertical tab, form feed, carriage
  return, space and the no-break space.\<close>

definition isWhiteSpace :: "char \<Rightarrow> bool" where
  "isWhiteSpace c = ((of_char c :: nat) \<in> {9, 10, 11, 12, 13, 32, 160})"

text \<open>\<open>\w\<close>: ASCII letters, digits and the underscore.\<close>

definition isWordChar :: "char \<Rightarrow> bool" where
  "isWordChar c =
     (let n = (of_char c :: nat)
      in (48 \<le> n \<and> n \<le> 57) \<or> (65 \<le> n \<and> n \<le> 90) \<or> n = 95 \<or> (97 \<le> n \<and> n \<le> 122))"

text \<open>The character at a position that may lie outside the string is not a word character.\<close>

definition wordAt :: "char option \<Rightarrow> bool" where
  "wordAt c = (case c of None \<Rightarrow> False | Some x \<Rightarrow> isWordChar x)"

definition firstChar :: "string \<Rightarrow> char option" where
  "firstChar s = (case s of [] \<Rightarrow> None | c # cs \<Rightarrow> Some c)"

text \<open>
  \<open>matchesAt atoms prev s\<close>: the sequence matches a prefix of \<open>s\<close>, where \<open>prev\<close> is the
  character just before \<open>s\<close> in the whole input (none at its start).
\<close>

fun matchesAt :: "atom list \<Rightarrow> char option \<Rightarrow> string \<Rightarrow> bool" where
  "matchesAt [] prev s = True"
| "matchesAt (Lit p # rest) prev [] = False"
| "matchesAt (Lit p # rest) prev (c # cs) =
     (canonicalize c = canonicalize p \<and> matchesAt rest (Some c) cs)"
| "matchesAt (WhiteStar # rest) prev [] = matchesAt rest prev []"
| "matchesAt (WhiteStar # rest) prev (c # cs) =
     ((isWhiteSpace c \<and> matchesAt (WhiteStar # rest) (Some c) cs) \<or> matchesAt rest prev (c # cs))"
| "matchesAt (WordBoundary # rest) prev s =
     (wordAt prev \<noteq> wordAt (firstChar s) \<and> matchesAt rest prev s)"

fun testFrom :: "regex \<Rightarrow> char option \<Rightarrow> string \<Rightarrow> bool" where
  "testFrom r prev [] = list_ex (\<lambda>alt. matchesAt alt prev []) r"
| "testFrom r prev (c # cs) =
     (list_ex (\<lambda>alt. matchesAt alt prev (c # cs)) r \<or> testFrom r (Some c) cs)"

definition regexTest :: "regex \<Rightarrow> string \<Rightarrow> bool" where
  "regexTest r s = testFrom r None s"

section \<open>extractTopics\<close>

definition topicPatterns :: "(string \<times> (string \<times> regex) list) list" where
  "topicPatterns =
     [(''react-docs'',
        [(''useState'', [lit ''use'' @ WhiteStar # lit ''state'']),
         (''useEffect'', [lit ''use'' @ WhiteStar # lit ''effect'']),
         (''useContext'', [lit ''use'' @ WhiteStar # lit ''context'']),
         (''useReducer'', [lit ''use'' @ WhiteStar # lit ''reducer'']),
         (''useCallback'', [lit ''use'' @ WhiteStar # lit ''callback'']),
         (''useMemo'', [lit ''use'' @ WhiteStar # lit ''memo'']),
         (''useRef'', [lit ''use'' @ WhiteStar # lit ''ref'']),
         (''components'', [lit ''component'']),
         (''props'', [lit ''props'']),
         (''state'', [lit ''state'' @ [WordBoundary]]),
         (''jsx'', [lit ''jsx'']),
         (''rendering'', [lit ''render'']),
         (''events'', [lit ''event''])]),
      (''node-docs'',
        [(''fs'', [WordBoundary # lit ''fs'' @ [WordBoundary],
                   lit ''file'' @ WhiteStar # lit ''system'']),
         (''http'', [WordBoundary # lit ''http'' @ [WordBoundary],
                     WordBoundary # lit ''server'' @ [WordBoundary]]),
         (''path'', [WordBoundary # lit ''path'' @ [WordBoundary]]),
         (''buffer'', [WordBoundary # lit ''buffer'' @ [WordBoundary]]),
         (''stream'', [WordBoundary # lit ''stream'' @ [WordBoundary]]),
         (''events'', [WordBoundary # lit ''events'' @ [WordBoundary]]),
         (''modules'', [WordBoundary # lit ''module'' @ [WordBoundary],
                        WordBoundary # lit ''require'' @ [WordBoundary],
                        WordBoundary # lit ''import'' @ [WordBoundary]]),
         (''npm'', [WordBoundary # lit ''npm'' @ [WordBoundary],
                    WordBoundary # lit ''package'' @ [WordBoundary]]),
         (''express'', [WordBoundary # lit ''express'' @ [WordBoundary]]),
         (''process'', [WordBoundary # lit ''process'' @ [WordBoundary]])]),
      (''python-docs'',
        [(''list'', [WordBoundary # lit ''list'' @ [WordBoundary],
                     WordBoundary # lit ''lists'' @ [WordBoundary]]),
         (''dict'', [WordBoundary # lit ''dict'' @ [WordBoundary],
                     WordBoundary # lit ''dictionary'' @ [WordBoundary],
                     WordBoundary # lit ''dictionaries'' @ [WordBoundary]]),
         (''tuple'', [WordBoundary # lit ''tuple'' @ [WordBoundary],
                      WordBoundary # lit ''tuples'' @ [WordBoundary]]),
         (''set'', [WordBoundary # lit ''set'' @ [WordBoundary],
                    WordBoundary # lit ''sets'' @ [WordBoundary]]),
         (''string'', [WordBoundary # lit ''string'' @ [WordBoundary],
                       WordBoundary # lit ''str'' @ [WordBoundary]]),
         (''file'', [WordBoundary # lit ''file'' @ [WordBoundary],
                     WordBoundary # lit ''open'' @ [WordBoundary],
                     WordBoundary # lit ''read'' @ [WordBoundary],
                     WordBoundary # lit ''write'' @ [WordBoundary]]),
         (''class'', [WordBoundary # lit ''class'' @ [WordBoundary],
                      WordBoundary # lit ''object'' @ [WordBoundary],
                      WordBoundary # lit ''inheritance'' @ [WordBoundary]]),
         (''function'', [WordBoundary # lit ''function'' @ [WordBoundary],
                         WordBoundary # lit ''def'' @ [WordBoundary]]),
         (''module'', [WordBoundary # lit ''module'' @ [WordBoundary],
                       WordBoundary # lit ''import'' @ [WordBoundary]]),
         (''pandas'', [WordBoundary # lit ''pandas'' @ [WordBoundary],
                       WordBoundary # lit ''pd'' @ [WordBoundary],
                       WordBoundary # lit ''dataframe'' @ [WordBoundary]]),
         (''numpy'', [WordBoundary # lit ''numpy'' @ [WordBoundary],
                      WordBoundary # lit ''np'' @ [WordBoundary],
                      WordBoundary # lit ''array'' @ [WordBoundary]]),
         (''django'', [WordBoundary # lit ''django'' @ [WordBoundary]]),
         (''flask'', [WordBoundary # lit ''flask'' @ [WordBoundary]])])]"

text \<open>
  One alternative of the quoted-term expression at the start of \<open>s\<close>, for the quote
  character \<open>q\<close>: the quote, one or more characters other than it, the quote again. The
  greedy class takes the whole run of other characters; a shorter run would have to be
  followed by the quote and is followed by a member of the run, so the attempt succeeds
  exactly when the run is not empty and a quote ends it. The result is the matched text
  and the input after it.
\<close>

definition quotedAt :: "char \<Rightarrow> string \<Rightarrow> (string \<times> string) option" where
  "quotedAt q s =
     (case s of
        [] \<Rightarrow> None
      | c # cs \<Rightarrow>
          if c \<noteq> q then None
          else (let body = takeWhile (\<lambda>x. x \<noteq> q) cs in
                case dropWhile (\<lambda>x. x \<noteq> q) cs of
                  [] \<Rightarrow> None
                | e # after \<Rightarrow> if body = [] then None else Some (q # body @ [q], after)))"

text \<open>The alternation tries the double-quoted form first, then the single-quoted one.\<close>

definition quotedMatchAt :: "string \<Rightarrow> (string \<times> string) option" where
  "quotedMatchAt s =
     (case quotedAt dquote s of
        Some r \<Rightarrow> Some r
      | None \<Rightarrow> quotedAt squote s)"

lemma quotedAt_shorter:
  "quotedAt q s = Some (m, after) \<Longrightarrow> length after < length s"
proof -
  assume a: "quotedAt q s = Some (m, after)"
  then obtain c cs e where s: "s = c # cs" and d: "dropWhile (\<lambda>x. x \<noteq> q) cs = e # after"
    by (auto simp: quotedAt_def Let_def split: list.splits if_splits)
  have "length (dropWhile (\<lambda>x. x \<noteq> q) cs) \<le> length cs"
    by (rule length_dropWhile_le)
  with d s show ?thesis by simp
qed

lemma quotedMatchAt_shorter:
  "quotedMatchAt s = Some (m, after) \<Longrightarrow> length after < length s"
  by (auto simp: quotedMatchAt_def split: option.splits dest: quotedAt_shorter)

text \<open>
  The matches of the flag \<open>g\<close>, from left to right: after a match the search goes on
  behind it, without one it moves one character ahead.
\<close>

function scanQuoted :: "string \<Rightarrow> string list" where
  "scanQuoted [] = []"
| "scanQuoted (c # cs) =
     (case quotedMatchAt (c # cs) of
        Some (m, after) \<Rightarrow> m # scanQuoted after
      | None \<Rightarrow> scanQuoted cs)"
  by pat_completeness auto
termination
  by (relation "measure length") (auto dest: quotedMatchAt_shorter)

text \<open>\<open>String.prototype.match\<close> with a global expression: \<open>null\<close> when nothing matches.\<close>

definition matchQuoted :: "string \<Rightarrow> string list option" where
  "matchQuoted query = (case scanQuoted query of [] \<Rightarrow> None | m # ms \<Rightarrow> Some (m # ms))"

text \<open>\<open>term.replace(/['"]/g, '')\<close>: every quote character of either kind goes.\<close>

definition removeQuotes :: "string \<Rightarrow> string" where
  "removeQuotes term' = filter (\<lambda>c. c \<noteq> squote \<and> c \<noteq> dquote) term'"

definition pushTopic :: "string \<Rightarrow> string list \<Rightarrow> string \<times> regex \<Rightarrow> string list" where
  "pushTopic queryLower extractedTopics entry =
     (case entry of (topic, pattern) \<Rightarrow>
        if regexTest pattern queryLower then extractedTopics @ [topic] else extractedTopics)"

definition pushQuoted :: "string list \<Rightarrow> string \<Rightarrow> string list" where
  "pushQuoted extractedTopics term' =
     (let cleanTerm = removeQuotes term'
      in if length cleanTerm > 2 then extractedTopics @ [cleanTerm] else extractedTopics)"

text \<open>
  The first block of \<open>extractTopics\<close>: when \<open>topicPatterns[domain]\<close> is truthy, the labels
  of its entries whose pattern matches, in the order of the entries. An inherited property
  is truthy and has no entries.
\<close>

definition patternTopics :: "string \<Rightarrow> string \<Rightarrow> string list" where
  "patternTopics queryLower domain =
     (case getProperty topicPatterns domain of
        Own patterns \<Rightarrow> foldl (pushTopic queryLower) [] patterns
      | Inherited \<Rightarrow> []
      | Undefined \<Rightarrow> [])"

definition extractTopics :: "string \<Rightarrow> string \<Rightarrow> string list" where
  "extractTopics query domain =
     (let queryLower = toLowerCase query;
          extractedTopics = patternTopics queryLower domain
      in case matchQuoted query of
           None \<Rightarrow> extractedTopics
         | Some quotedTerms \<Rightarrow> foldl pushQuoted extractedTopics quotedTerms)"

section \<open>constructSpecificUrl\<close>

definition reactHooks :: "string list" where
  "reactHooks =
     [''useState'', ''useEffect'', ''useContext'', ''useReducer'', ''useCallback'',
      ''useMemo'', ''useRef'']"

definition reactUrl :: "string \<Rightarrow> string option" where
  "reactUrl mainTopic =
     (if mainTopic \<in> set reactHooks then Some (''https://react.dev/reference/react/'' @ mainTopic)
      else if mainTopic = ''components'' then Some ''https://react.dev/learn/your-first-component''
      else if mainTopic = ''props'' then Some ''https://react.dev/learn/passing-props-to-a-component''
      else if mainTopic = ''state'' then Some ''https://react.dev/learn/state-a-components-memory''
      else if mainTopic = ''jsx'' then Some ''https://react.dev/learn/writing-markup-with-jsx''
      else if mainTopic = ''events'' then Some ''https://react.dev/learn/responding-to-events''
      else if mainTopic = ''rendering'' then Some ''https://react.dev/learn/render-and-commit''
      else None)"

definition nodeUrl :: "string \<Rightarrow> string option" where
  "nodeUrl mainTopic =
     (if mainTopic = ''fs'' then Some ''https://nodejs.org/api/fs.html''
      else if mainTopic = ''http'' then Some ''https://nodejs.org/api/http.html''
      else if mainTopic = ''path'' then Some ''https://nodejs.org/api/path.html''
      else if mainTopic = ''buffer'' then Some ''https://nodejs.org/api/buffer.html''
      else if mainTopic = ''stream'' then Some ''https://nodejs.org/api/stream.html''
      else if mainTopic = ''events'' then Some ''https://nodejs.org/api/events.html''
      else if mainTopic = ''modules'' then Some ''https://nodejs.org/api/modules.html''
      else if mainTopic = ''process'' then Some ''https://nodejs.org/api/process.html''
      else if mainTopic = ''npm'' then Some ''https://docs.npmjs.com/''
      else if mainTopic = ''express'' then Some ''https://expressjs.com/en/api.html''
      else None)"

definition pythonUrl :: "string \<Rightarrow> string option" where
  "pythonUrl mainTopic =
     (if mainTopic \<in> set [''list'', ''dict'', ''tuple'', ''set'', ''string'']
      then Some (''https://docs.python.org/3/library/stdtypes.html#'' @ mainTopic @ ''s'')
      else if mainTopic = ''file''
      then Some ''https://docs.python.org/3/tutorial/inputoutput.html#reading-and-writing-files''
      else if mainTopic = ''class'' then Some ''https://docs.python.org/3/tutorial/classes.html''
      else if mainTopic = ''function''
      then Some ''https://docs.python.org/3/tutorial/controlflow.html#defining-functions''
      else if mainTopic = ''module'' then Some ''https://docs.python.org/3/tutorial/modules.html''
      else if mainTopic = ''pandas'' then Some ''https://pandas.pydata.org/docs/user_guide/index.html''
      else if mainTopic = ''numpy'' then Some ''https://numpy.org/doc/stable/user/index.html''
      else if mainTopic = ''django'' then Some ''https://docs.djangoproject.com/en/stable/''
      else if mainTopic = ''flask'' then Some ''https://flask.palletsprojects.com/en/latest/''
      else None)"

text \<open>\<open>null\<close> is \<open>None\<close>. The \<open>switch\<close> compares with \<open>===\<close> and has no default case.\<close>

definition constructSpecificUrl :: "string \<Rightarrow> string list \<Rightarrow> string option" where
  "constructSpecificUrl domain topics =
     (case topics of
        [] \<Rightarrow> None
      | mainTopic # others \<Rightarrow>
          if domain = ''react-docs'' then reactUrl mainTopic
          else if domain = ''node-docs'' then nodeUrl mainTopic
          else if domain = ''python-docs'' then pythonUrl mainTopic
          else None)"

section \<open>The server: resources and the fetch-documentation tool\<close>

text \<open>
  The outside world of one call: what \<open>fetch\<close> answers for a URL (\<open>None\<close> when it rejects;
  reading the body may reject as well) and the time stamp of \<open>new Date().toISOString()\<close>.
\<close>

record httpResponse =
  ok :: bool
  statusText :: string
  bodyText :: "string option"

record world =
  fetch :: "string \<Rightarrow> httpResponse option"
  now :: string

text \<open>Every failure inside \<open>fetchDocumentation\<close> is caught there and becomes a fixed text.\<close>

definition fetchDocumentation :: "world \<Rightarrow> string \<Rightarrow> string" where
  "fetchDocumentation w url =
     (case fetch w url of
        None \<Rightarrow> ''Unable to fetch documentation content.''
      | Some response \<Rightarrow>
          if \<not> ok response then ''Unable to fetch documentation content.''
          else (case bodyText response of
                  None \<Rightarrow> ''Unable to fetch documentation content.''
                | Some t \<Rightarrow> t))"

record resourceHandler =
  content :: string
  source :: string
  timestamp :: string

text \<open>
  The handlers of the three documentation resources differ in their base URL only;
  \<open>specificUrl || baseUrl\<close> takes the base URL for \<open>null\<close> and for the empty string.
\<close>

definition docsHandler :: "string \<Rightarrow> world \<Rightarrow> string option \<Rightarrow> resourceHandler" where
  "docsHandler baseUrl w specificUrl =
     (let targetUrl = (case specificUrl of
                         None \<Rightarrow> baseUrl
                       | Some u \<Rightarrow> if u = [] then baseUrl else u);
          fetched = fetchDocumentation w targetUrl
      in \<lparr>content = fetched, source = targetUrl, timestamp = now w\<rparr>)"

definition generalHandler :: "world \<Rightarrow> string option \<Rightarrow> resourceHandler" where
  "generalHandler w url =
     (case url of
        None \<Rightarrow> \<lparr>content = ''Please provide a specific URL for general documentation queries.'',
                 source = ''none'', timestamp = now w\<rparr>
      | Some u \<Rightarrow>
          if u = []
          then \<lparr>content = ''Please provide a specific URL for general documentation queries.'',
                source = ''none'', timestamp = now w\<rparr>
          else \<lparr>content = fetchDocumentation w u, source = u, timestamp = now w\<rparr>)"

definition resources :: "(string \<times> (world \<Rightarrow> string option \<Rightarrow> resourceHandler)) list" where
  "resources =
     [(''react-docs'', docsHandler ''https://react.dev/reference/react''),
      (''node-docs'', docsHandler ''https://nodejs.org/en/docs''),
      (''python-docs'', docsHandler ''https://docs.python.org/3/''),
      (''general'', generalHandler)]"

text \<open>What the \<open>try\<close> block can throw, and \<open>String(error)\<close> of it.\<close>

datatype jsError = Error string | TypeError string

fun errorString :: "jsError \<Rightarrow> string" where
  "errorString (Error msg) = ''Error: '' @ msg"
| "errorString (TypeError msg) = ''TypeError: '' @ msg"

text \<open>The two shapes of the tool's answer: the one of the \<open>try\<close> block, the one of \<open>catch\<close>.\<close>

datatype toolResponse =
    Documentation string "string list" "string option" string string
  | Failure string "string list" string string

fun responseDomain :: "toolResponse \<Rightarrow> string" where
  "responseDomain (Documentation domain topics specificUrl text src) = domain"
| "responseDomain (Failure domain topics text error) = domain"

fun responseTopics :: "toolResponse \<Rightarrow> string list" where
  "responseTopics (Documentation domain topics specificUrl text src) = topics"
| "responseTopics (Failure domain topics text error) = topics"

fun responseError :: "toolResponse \<Rightarrow> string option" where
  "responseError (Documentation domain topics specificUrl text src) = None"
| "responseError (Failure domain topics text error) = Some error"

text \<open>
  The body of the \<open>try\<close> block: \<open>Inl\<close> is a throw. A domain that \<open>resources\<close> only inherits
  passes the test \<open>!resources[domain]\<close>, and calling its missing \<open>handler\<close> throws.
\<close>

definition tryFetch ::
  "world \<Rightarrow> string \<Rightarrow> string list \<Rightarrow> string option \<Rightarrow> jsError + toolResponse" where
  "tryFetch w domain topics specificUrl =
     (case getProperty resources domain of
        Undefined \<Rightarrow> Inl (Error (''Unknown domain: '' @ domain))
      | Inherited \<Rightarrow> Inl (TypeError ''resource.handler is not a function'')
      | Own handler \<Rightarrow>
          (let result = handler w specificUrl
           in Inr (Documentation domain
                     (if length topics > 0 then topics else [''general''])
                     specificUrl (content result) (source result))))"

text \<open>
  The handler of the tool \<open>fetch-documentation\<close>. The optional argument \<open>domain\<close> is \<open>None\<close>
  when absent; \<open>specifiedDomain || determineDomain(query)\<close> classifies the query for an absent
  and for an empty domain. Nothing outside the \<open>try\<close> block throws, and \<open>catch\<close> turns every
  throw into an answer, so the handler always returns one.
\<close>

definition fetchDocumentationTool :: "world \<Rightarrow> string \<Rightarrow> string option \<Rightarrow> toolResponse" where
  "fetchDocumentationTool w query specifiedDomain =
     (let domain = (case specifiedDomain of
                      None \<Rightarrow> determineDomain query
                    | Some d \<Rightarrow> if d = [] then determineDomain query else d);
          topics = extractTopics query domain;
          specificUrl = constructSpecificUrl domain topics
      in case tryFetch w domain topics specificUrl of
           Inr response \<Rightarrow> response
         | Inl error \<Rightarrow>
             Failure domain topics ''Error fetching documentation for this domain.''
               (errorString error))"

section \<open>Properties of determineDomain\<close>

lemma keywordScore_count:
  "foldl (\<lambda>count keyword. count + (if P keyword then 1 else 0)) (a::nat) ks = a + length (filter P ks)"
  by (induction ks arbitrary: a) auto

lemma keywordScore_filter:
  "keywordScore ql ks = length (filter (includesStr ql) ks)"
  by (simp add: keywordScore_def keywordScore_count)

lemma foldl_max_ge: "h \<le> foldl max (h::nat) xs"
  by (induction xs arbitrary: h) (auto intro: order_trans[OF max.cobounded1])

lemma bestStep_keep:
  "foldl max h (map snd ss) = h \<Longrightarrow> foldl bestStep (b, h) ss = (b, h)"
proof (induction ss arbitrary: b h)
  case Nil
  then show ?case by simp
next
  case (Cons e ss)
  obtain d s where e: "e = (d, s)" by (cases e)
  have "max h s \<le> foldl max (max h s) (map snd ss)" by (rule foldl_max_ge)
  with Cons.prems e have le: "s \<le> h" by simp
  then have "max h s = h" by simp
  with Cons.prems e have "foldl max h (map snd ss) = h" by simp
  from Cons.IH[OF this] le e show ?case by (simp add: bestStep_def)
qed

lemma bestStep_first:
  "h < foldl max h (map snd ss) \<Longrightarrow>
   find (\<lambda>e. snd e = foldl max h (map snd ss)) ss = Some (foldl bestStep (b, h) ss)"
proof (induction ss arbitrary: b h)
  case Nil
  then show ?case by simp
next
  case (Cons e ss)
  obtain d s where e: "e = (d, s)" by (cases e)
  let ?M = "foldl max h (map snd (e # ss))"
  show ?case
  proof (cases "h < s")
    case True
    then have m: "?M = foldl max s (map snd ss)" using e by (simp add: max_def)
    have step: "foldl bestStep (b, h) (e # ss) = foldl bestStep (d, s) ss"
      using True e by (simp add: bestStep_def)
    show ?thesis
    proof (cases "s < foldl max s (map snd ss)")
      case True
      from Cons.IH[OF True, of d] True m e step show ?thesis by simp
    next
      case False
      with foldl_max_ge[of s "map snd ss"] have eq: "foldl max s (map snd ss) = s" by simp
      from bestStep_keep[OF eq, of d] eq m e step show ?thesis by simp
    qed
  next
    case False
    then have m: "?M = foldl max h (map snd ss)" using e by (simp add: max_def)
    have step: "foldl bestStep (b, h) (e # ss) = foldl bestStep (b, h) ss"
      using False e by (simp add: bestStep_def)
    from Cons.prems m have lt: "h < foldl max h (map snd ss)" by simp
    from False lt have "s \<noteq> foldl max h (map snd ss)" by simp
    with Cons.IH[OF lt, of b] m e step show ?thesis by simp
  qed
qed

lemma bestStep_domain:
  "fst (foldl bestStep (b, h) ss) \<in> insert b (fst ` set ss)"
proof (induction ss arbitrary: b h)
  case Nil
  then show ?case by simp
next
  case (Cons e ss)
  obtain d s where e: "e = (d, s)" by (cases e)
  show ?case using Cons.IH[of d s] Cons.IH[of b h] e
    by (auto simp: bestStep_def)
qed

lemma determineDomain_loop:
  "determineDomain q =
     (let r = foldl bestStep (''general'', 0) (computeScores (toLowerCase q))
      in if snd r > 0 then fst r else ''general'')"
  by (simp add: determineDomain_def Let_def case_prod_beta)

lemma computeScores_domainScore:
  "computeScores (toLowerCase q) = map (\<lambda>d. (d, domainScore q d)) domainOrder"
  by (simp add: computeScores_def domainOrder_def domainScore_def domainKeywords_def)

lemma domainOrder_eq: "domainOrder = [''react-docs'', ''node-docs'', ''python-docs'']"
  by (simp add: domainOrder_def domainKeywords_def)

lemma find_mapped:
  "find P (map f xs) = map_option f (find (\<lambda>x. P (f x)) xs)"
  by (induction xs) auto

lemma foldl_max_greatest:
  "x \<in> set xs \<Longrightarrow> \<forall>y\<in>set xs. y \<le> x \<Longrightarrow> h \<le> x \<Longrightarrow> foldl max (h::nat) xs = x"
proof (induction xs arbitrary: h)
  case Nil
  then show ?case by simp
next
  case (Cons a xs)
  show ?case
  proof (cases "x \<in> set xs")
    case True
    from Cons.prems have "max h a \<le> x" by simp
    with Cons.IH[OF True] Cons.prems show ?thesis by simp
  next
    case False
    with Cons.prems have ax: "a = x" by simp
    have "foldl max x xs = x"
    proof (rule antisym)
      show "x \<le> foldl max x xs" by (rule foldl_max_ge)
      have "\<And>k. k \<le> x \<Longrightarrow> foldl max k xs \<le> x"
        using Cons.prems(2)
      proof (induction xs)
        case Nil
        then show ?case by simp
      next
        case (Cons b bs)
        then show ?case by simp
      qed
      then show "foldl max x xs \<le> x" by simp
    qed
    moreover from ax Cons.prems have "max h a = x" by simp
    ultimately show ?thesis by simp
  qed
qed

lemma determineDomain_range:
  "determineDomain q \<in> {''react-docs'', ''node-docs'', ''python-docs'', ''general''}"
proof -
  have "fst (foldl bestStep (''general'', 0) (computeScores (toLowerCase q)))
        \<in> insert ''general'' (fst ` set (computeScores (toLowerCase q)))"
    by (rule bestStep_domain)
  moreover have "fst ` set (computeScores (toLowerCase q)) = set domainOrder"
    by (simp add: computeScores_domainScore image_image)
  ultimately show ?thesis
    by (auto simp: determineDomain_loop Let_def domainOrder_eq)
qed

lemma no_keyword_scores:
  assumes "\<forall>(d, ks)\<in>set domainKeywords. \<forall>k\<in>set ks. \<not> includesStr ql k"
  shows "map snd (computeScores ql) = replicate (length domainKeywords) 0"
proof -
  have "\<And>d ks. (d, ks) \<in> set domainKeywords \<Longrightarrow> keywordScore ql ks = 0"
    using assms by (auto simp: keywordScore_filter filter_empty_conv)
  then have "\<forall>e\<in>set domainKeywords. (case e of (d, ks) \<Rightarrow> keywordScore ql ks) = 0"
    by auto
  then have "map (\<lambda>e. case e of (d, ks) \<Rightarrow> keywordScore ql ks) domainKeywords
             = replicate (length domainKeywords) 0"
    by (simp add: map_replicate_const[symmetric] cong: map_cong)
  then show ?thesis
    by (simp add: computeScores_def comp_def case_prod_beta)
qed

lemma foldl_max_zeros: "foldl max (0::nat) (replicate n 0) = 0"
  by (induction n) auto

text \<open>
  Claim C4, as it holds: for every query whose highest keyword score is at least 1,
  \<open>determineDomain\<close> returns the first domain, in the order react-docs, node-docs,
  python-docs, among those that reach the highest score; so when two or more domains tie
  for it, the first of them wins, not the last. (When the highest score is 0, all three
  domains tie and the result is general, none of them.)
\<close>

theorem determineDomain_first_wins:
  assumes top: "d1 \<in> set domainOrder"
      and best: "\<forall>d\<in>set domainOrder. domainScore q d \<le> domainScore q d1"
      and pos: "0 < domainScore q d1"
  shows "domainOrder = [''react-docs'', ''node-docs'', ''python-docs''] \<and>
         find (\<lambda>d. domainScore q d = domainScore q d1) domainOrder = Some (determineDomain q)"
proof -
  let ?ss = "computeScores (toLowerCase q)"
  let ?m = "domainScore q d1"
  have ss: "?ss = map (\<lambda>d. (d, domainScore q d)) domainOrder"
    by (rule computeScores_domainScore)
  have snds: "map snd ?ss = map (domainScore q) domainOrder"
    by (simp add: ss comp_def)
  have m: "foldl max 0 (map snd ?ss) = ?m"
    unfolding snds using top best by (intro foldl_max_greatest) auto
  with pos have "0 < foldl max 0 (map snd ?ss)" by simp
  from bestStep_first[OF this, of "''general''"] m
  have f: "find (\<lambda>e. snd e = ?m) ?ss = Some (foldl bestStep (''general'', 0) ?ss)"
    by simp
  have "find (\<lambda>e. snd e = ?m) ?ss
        = map_option (\<lambda>d. (d, domainScore q d)) (find (\<lambda>d. domainScore q d = ?m) domainOrder)"
    by (simp add: ss find_mapped)
  with f obtain d where d: "find (\<lambda>d. domainScore q d = ?m) domainOrder = Some d"
    and r: "foldl bestStep (''general'', 0) ?ss = (d, domainScore q d)"
    by (cases "find (\<lambda>d. domainScore q d = ?m) domainOrder") auto
  from d have "domainScore q d = ?m" by (auto simp: find_Some_iff)
  with r pos have "determineDomain q = d" by (simp add: determineDomain_loop)
  with d show ?thesis by (simp add: domainOrder_eq)
qed

text \<open>
  On the query of scenario 4, node-docs and python-docs both score 1 and node-docs, the
  first of the two, is returned.
\<close>

theorem determineDomain_first_wins_witness:
  "domainScore ''What's the difference between Node.js and Python?'' ''react-docs'' = 0 \<and>
   domainScore ''What's the difference between Node.js and Python?'' ''node-docs'' = 1 \<and>
   domainScore ''What's the difference between Node.js and Python?'' ''python-docs'' = 1 \<and>
   determineDomain ''What's the difference between Node.js and Python?'' = ''node-docs''"
proof -
  let ?q = "''What's the difference between Node.js and Python?''"
  have r: "domainScore ?q ''react-docs'' = 0" by code_simp
  have n: "domainScore ?q ''node-docs'' = 1" by code_simp
  have p: "domainScore ?q ''python-docs'' = 1" by code_simp
  have h1: "''node-docs'' \<in> set domainOrder" by (simp add: domainOrder_eq)
  have h2: "\<forall>d\<in>set domainOrder. domainScore ?q d \<le> domainScore ?q ''node-docs''"
    by (simp add: domainOrder_eq r n p)
  have h3: "0 < domainScore ?q ''node-docs''" by (simp add: n)
  from determineDomain_first_wins[OF h1 h2 h3]
  have "find (\<lambda>d. domainScore ?q d = domainScore ?q ''node-docs'') domainOrder
        = Some (determineDomain ?q)" by simp
  then have "determineDomain ?q = ''node-docs''"
    by (simp add: domainOrder_eq r n p)
  with r n p show ?thesis by simp
qed

text \<open>
  Three domains tie for the highest score, 0, and the result is not the first of them.
\<close>

theorem tie_at_zero_counterexample:
  "domainScore ''Best practices for file handling'' ''react-docs'' = 0 \<and>
   domainScore ''Best practices for file handling'' ''node-docs'' = 0 \<and>
   domainScore ''Best practices for file handling'' ''python-docs'' = 0 \<and>
   determineDomain ''Best practices for file handling'' = ''general''"
  by code_simp

text \<open>
  Claim C5: \<open>determineDomain\<close> returns one of react-docs, node-docs, python-docs and
  general for every query (it is a total function: nothing in it can throw), and it
  returns general whenever the lower-cased query contains no keyword of any domain.
\<close>

theorem determineDomain_total:
  "determineDomain q \<in> {''react-docs'', ''node-docs'', ''python-docs'', ''general''} \<and>
   ((\<forall>(d, ks)\<in>set domainKeywords. \<forall>k\<in>set ks. \<not> includesStr (toLowerCase q) k)
      \<longrightarrow> determineDomain q = ''general'')"
proof (intro conjI impI)
  show "determineDomain q \<in> {''react-docs'', ''node-docs'', ''python-docs'', ''general''}"
    by (rule determineDomain_range)
next
  assume none: "\<forall>(d, ks)\<in>set domainKeywords. \<forall>k\<in>set ks. \<not> includesStr (toLowerCase q) k"
  have "foldl max 0 (map snd (computeScores (toLowerCase q))) = 0"
    by (simp add: no_keyword_scores[OF none] foldl_max_zeros)
  from bestStep_keep[OF this, of "''general''"]
  show "determineDomain q = ''general''" by (simp add: determineDomain_loop)
qed

theorem determineDomain_total_witness:
  "list_all (\<lambda>(d, ks). list_all (\<lambda>k. \<not> includesStr (toLowerCase ''How to handle events'') k) ks)
     domainKeywords \<and>
   determineDomain ''How to handle events'' = ''general''"
proof -
  have h: "list_all (\<lambda>(d, ks). list_all (\<lambda>k. \<not> includesStr (toLowerCase ''How to handle events'') k) ks)
     domainKeywords" by code_simp
  then have "\<forall>(d, ks)\<in>set domainKeywords. \<forall>k\<in>set ks.
      \<not> includesStr (toLowerCase ''How to handle events'') k"
    by (simp add: list_all_iff case_prod_beta)
  with determineDomain_total[of "''How to handle events''"]
  have "determineDomain ''How to handle events'' = ''general''" by blast
  with h show ?thesis by simp
qed

section \<open>Properties of extractTopics\<close>

lemma foldl_pushQuoted:
  "foldl pushQuoted acc ms = acc @ filter (\<lambda>t. 2 < length t) (map removeQuotes ms)"
  by (induction ms arbitrary: acc) (auto simp: pushQuoted_def Let_def)


lemma extractTopics_append:
  "extractTopics q d =
     patternTopics (toLowerCase q) d @ filter (\<lambda>t. 2 < length t) (map removeQuotes (scanQuoted q))"
  by (cases "scanQuoted q")
    (simp_all add: extractTopics_def matchQuoted_def Let_def foldl_pushQuoted del: foldl_Cons)

lemma quotedAt_shape:
  assumes "quotedAt q s = Some (m, after)"
  shows "\<exists>body. m = q # body @ [q] \<and> body \<noteq> [] \<and> q \<notin> set body \<and> s = m @ after"
proof -
  from assms obtain cs e where s: "s = q # cs"
    and d: "dropWhile (\<lambda>x. x \<noteq> q) cs = e # after"
    and b: "takeWhile (\<lambda>x. x \<noteq> q) cs \<noteq> []"
    and m: "m = q # takeWhile (\<lambda>x. x \<noteq> q) cs @ [q]"
    by (auto simp: quotedAt_def Let_def split: list.splits if_splits)
  from d have "e = q"
    using hd_dropWhile[of "\<lambda>x. x \<noteq> q" cs] by auto
  with d have "cs = takeWhile (\<lambda>x. x \<noteq> q) cs @ q # after"
    using takeWhile_dropWhile_id[of "\<lambda>x. x \<noteq> q" cs] by simp
  moreover have "q \<notin> set (takeWhile (\<lambda>x. x \<noteq> q) cs)"
    by (auto dest: set_takeWhileD)
  ultimately show ?thesis using s b m by auto
qed

lemma quotedMatchAt_shape:
  assumes "quotedMatchAt s = Some (m, after)"
  shows "\<exists>q body. (q = dquote \<or> q = squote) \<and> m = q # body @ [q] \<and> body \<noteq> [] \<and>
           q \<notin> set body \<and> s = m @ after"
proof (cases "quotedAt dquote s")
  case None
  with assms have "quotedAt squote s = Some (m, after)" by (simp add: quotedMatchAt_def)
  from quotedAt_shape[OF this] show ?thesis by blast
next
  case (Some r)
  with assms have "quotedAt dquote s = Some (m, after)" by (simp add: quotedMatchAt_def)
  from quotedAt_shape[OF this] show ?thesis by blast
qed

lemma scanQuoted_shape:
  "m \<in> set (scanQuoted s) \<Longrightarrow>
   \<exists>q body. (q = dquote \<or> q = squote) \<and> m = q # body @ [q] \<and> body \<noteq> [] \<and> q \<notin> set body"
proof (induction s rule: scanQuoted.induct)
  case 1
  then show ?case by simp
next
  case (2 c cs)
  show ?case
  proof (cases "quotedMatchAt (c # cs)")
    case None
    with 2 show ?thesis by simp
  next
    case (Some r)
    obtain m' after where r: "r = (m', after)" by (cases r)
    show ?thesis
    proof (cases "m = m'")
      case True
      from quotedMatchAt_shape[of "c # cs" m' after] Some r True show ?thesis by blast
    next
      case False
      with "2.prems" Some r have "m \<in> set (scanQuoted after)" by simp
      from "2.IH"(2)[OF Some r[symmetric] this] show ?thesis .
    qed
  qed
qed

lemma removeQuotes_match:
  "removeQuotes (q # body @ [q]) =
     (if q = dquote \<or> q = squote then removeQuotes body else q # removeQuotes body @ [q])"
  by (auto simp: removeQuotes_def)

lemma removeQuotes_id:
  "squote \<notin> set body \<Longrightarrow> dquote \<notin> set body \<Longrightarrow> removeQuotes body = body"
  by (induction body) (auto simp: removeQuotes_def)










text \<open>
  Claim C1, as it holds: for the query ``How do I use useState hook in React?''
  \<open>determineDomain\<close> returns react-docs, the topics are useState and state, in this order
  (in the lower-cased query ``usestate'' is followed by a space, so the word boundary that
  the pattern of state asks for is there), and \<open>constructSpecificUrl\<close> on these topics
  returns exactly the URL of useState.
\<close>

theorem scenario1_topics_and_url:
  "determineDomain ''How do I use useState hook in React?'' = ''react-docs'' \<and>
   extractTopics ''How do I use useState hook in React?'' ''react-docs'' = [''useState'', ''state''] \<and>
   constructSpecificUrl ''react-docs''
       (extractTopics ''How do I use useState hook in React?'' ''react-docs'')
     = Some ''https://react.dev/reference/react/useState''"
  by code_simp

text \<open>The label state is among the topics of that query.\<close>

theorem scenario1_state_counterexample:
  "''state'' \<in> set (extractTopics ''How do I use useState hook in React?'' ''react-docs'')"
  by code_simp

text \<open>
  Claim C2, as it holds: the topics are the pattern labels followed by the cleaned quoted
  matches that are longer than 2 characters; every quoted match is a quote character, a
  non-empty text without that quote character, and the same quote character again; and
  the term made from it is that text with every quote character of either kind removed,
  so it is the text between the surrounding quotes exactly when that text contains no
  quote character of the other kind.
\<close>

theorem quoted_term_cleaning:
  "extractTopics q d =
     patternTopics (toLowerCase q) d @ filter (\<lambda>t. 2 < length t) (map removeQuotes (scanQuoted q)) \<and>
   (\<forall>m\<in>set (scanQuoted q). \<exists>quote inner.
      (quote = dquote \<or> quote = squote) \<and> m = quote # inner @ [quote] \<and>
      inner \<noteq> [] \<and> quote \<notin> set inner \<and>
      removeQuotes m = filter (\<lambda>c. c \<noteq> squote \<and> c \<noteq> dquote) inner \<and>
      (squote \<notin> set inner \<and> dquote \<notin> set inner \<longrightarrow> removeQuotes m = inner))"
proof (intro conjI ballI)
  show "extractTopics q d =
     patternTopics (toLowerCase q) d @ filter (\<lambda>t. 2 < length t) (map removeQuotes (scanQuoted q))"
    by (rule extractTopics_append)
next
  fix m assume "m \<in> set (scanQuoted q)"
  from scanQuoted_shape[OF this] obtain quote inner
    where q: "quote = dquote \<or> quote = squote" and m: "m = quote # inner @ [quote]"
      and n: "inner \<noteq> []" and i: "quote \<notin> set inner" by blast
  from q m have r: "removeQuotes m = removeQuotes inner" by (simp add: removeQuotes_match)
  then have "removeQuotes m = filter (\<lambda>c. c \<noteq> squote \<and> c \<noteq> dquote) inner"
    by (simp add: removeQuotes_def)
  moreover have "squote \<notin> set inner \<and> dquote \<notin> set inner \<longrightarrow> removeQuotes m = inner"
    using r by (simp add: removeQuotes_id)
  ultimately show "\<exists>quote inner.
      (quote = dquote \<or> quote = squote) \<and> m = quote # inner @ [quote] \<and>
      inner \<noteq> [] \<and> quote \<notin> set inner \<and>
      removeQuotes m = filter (\<lambda>c. c \<noteq> squote \<and> c \<noteq> dquote) inner \<and>
      (squote \<notin> set inner \<and> dquote \<notin> set inner \<longrightarrow> removeQuotes m = inner)"
    using q m n i by blast
qed

theorem quoted_term_cleaning_witness:
  "scanQuoted ''explain \"hooks\" please'' = [''\"hooks\"''] \<and>
   removeQuotes ''\"hooks\"'' = ''hooks'' \<and>
   extractTopics ''explain \"hooks\" please'' ''general'' = [''hooks'']"
proof -
  let ?q = "''explain \"hooks\" please''"
  let ?m = "''\"hooks\"''"
  have sc: "scanQuoted ?q = [?m]" by code_simp
  have pt: "patternTopics (toLowerCase ?q) ''general'' = []" by code_simp
  from quoted_term_cleaning[of ?q "''general''"] sc
  obtain quote inner where m: "?m = quote # inner @ [quote]"
    and id: "squote \<notin> set inner \<and> dquote \<notin> set inner \<longrightarrow> removeQuotes ?m = inner"
    by auto
  from m have inner: "inner = ''hooks''" by (cases inner rule: rev_cases) auto
  have "squote \<notin> set ''hooks'' \<and> dquote \<notin> set ''hooks''"
    by (simp add: squote_def dquote_def)
  with id inner have rq: "removeQuotes ?m = ''hooks''" by simp
  from quoted_term_cleaning[of ?q "''general''"]
  have "extractTopics ?q ''general'' =
     patternTopics (toLowerCase ?q) ''general'' @
       filter (\<lambda>t. 2 < length t) (map removeQuotes (scanQuoted ?q))" by blast
  with sc pt rq have "extractTopics ?q ''general'' = [''hooks'']" by simp
  with sc rq show ?thesis by simp
qed

text \<open>
  An apostrophe inside a double-quoted term is removed together with the surrounding
  quotes: the topic is ``dont''.
\<close>

theorem interior_quote_counterexample:
  "scanQuoted ''the \"don't\" rule'' = [''\"don't\"''] \<and>
   extractTopics ''the \"don't\" rule'' ''general'' = [''dont'']"
  by code_simp





section \<open>Properties of constructSpecificUrl\<close>

text \<open>
  Claim C6: \<open>constructSpecificUrl\<close> returns \<open>null\<close> for the empty topic list whatever the
  domain is, and for every domain other than react-docs, node-docs and python-docs
  whatever the topics are.
\<close>

theorem constructSpecificUrl_null:
  "constructSpecificUrl domain [] = None \<and>
   (domain \<notin> {''react-docs'', ''node-docs'', ''python-docs''}
      \<longrightarrow> constructSpecificUrl domain topics = None)"
  by (cases topics) (simp_all add: constructSpecificUrl_def)

theorem constructSpecificUrl_null_witness:
  "''general'' \<notin> {''react-docs'', ''node-docs'', ''python-docs''} \<and>
   constructSpecificUrl ''general'' [''useState''] = None \<and>
   constructSpecificUrl ''react-docs'' [] = None"
proof -
  have h: "''general'' \<notin> {''react-docs'', ''node-docs'', ''python-docs''}" by simp
  with constructSpecificUrl_null[of "''general''" "[''useState'']"]
  have "constructSpecificUrl ''general'' [''useState''] = None" by blast
  moreover from constructSpecificUrl_null[of "''react-docs''"]
  have "constructSpecificUrl ''react-docs'' [] = None" by blast
  ultimately show ?thesis using h by blast
qed

text \<open>
  Claim C7: for every domain, two non-empty topic lists with the same first element give
  the same result; the later topics never change it, in particular they are not tried when
  the first topic matches no rule.
\<close>

theorem constructSpecificUrl_first_topic_only:
  assumes "topics1 \<noteq> []" and "topics2 \<noteq> []" and "hd topics1 = hd topics2"
  shows "constructSpecificUrl domain topics1 = constructSpecificUrl domain topics2"
proof -
  from assms obtain t rest1 rest2 where "topics1 = t # rest1" and "topics2 = t # rest2"
    by (cases topics1; cases topics2) auto
  then show ?thesis by (simp add: constructSpecificUrl_def)
qed

theorem constructSpecificUrl_first_topic_only_witness:
  "hd [''hooks'', ''useState''] = hd [''hooks''] \<and>
   constructSpecificUrl ''react-docs'' [''hooks''] = None \<and>
   constructSpecificUrl ''react-docs'' [''hooks'', ''useState''] = None \<and>
   constructSpecificUrl ''react-docs'' [''useState''] = Some ''https://react.dev/reference/react/useState''"
proof -
  have one: "constructSpecificUrl ''react-docs'' [''hooks''] = None" by code_simp
  have hook: "constructSpecificUrl ''react-docs'' [''useState'']
      = Some ''https://react.dev/reference/react/useState''" by code_simp
  have "constructSpecificUrl ''react-docs'' [''hooks'', ''useState'']
      = constructSpecificUrl ''react-docs'' [''hooks'']"
    by (rule constructSpecificUrl_first_topic_only) simp_all
  with one hook show ?thesis by simp
qed

section \<open>Properties of the fetch-documentation tool\<close>

lemma resources_unknown:
  "d \<notin> {''react-docs'', ''node-docs'', ''python-docs'', ''general''} \<Longrightarrow> map_of resources d = None"
  by (simp add: resources_def)

text \<open>An answer of the \<open>try\<close> block never has an empty topic list.\<close>

lemma success_topics_nonempty:
  "fetchDocumentationTool w q sd = Documentation dn ts u txt src \<Longrightarrow> ts \<noteq> []"
  by (auto simp: fetchDocumentationTool_def tryFetch_def Let_def
      split: sum.splits property.splits if_splits)

text \<open>
  Claim C3 says that the topics of the answer are \<open>["general"]\<close> whenever no topic was
  extracted. The answer of the \<open>catch\<close> block carries the extracted list as it is: for the
  query ``hello'' and the domain ruby-docs, which is no resource, no topic is extracted and
  the topics of the answer are the empty list, in every world.
\<close>

theorem error_answer_empty_topics:
  "extractTopics ''hello'' ''ruby-docs'' = [] \<and>
   fetchDocumentationTool w ''hello'' (Some ''ruby-docs'')
     = Failure ''ruby-docs'' [] ''Error fetching documentation for this domain.''
         ''Error: Unknown domain: ruby-docs''"
proof -
  have t: "extractTopics ''hello'' ''ruby-docs'' = []" by code_simp
  have g: "getProperty resources ''ruby-docs'' = (Undefined :: (world \<Rightarrow> string option \<Rightarrow> resourceHandler) property)"
    by (simp add: getProperty_def resources_unknown objectPrototypeKeys_def)
  show ?thesis
    by (simp add: t g fetchDocumentationTool_def tryFetch_def constructSpecificUrl_def Let_def)
qed

text \<open>
  Claim C9, as it holds: for every query and every supplied domain that is not empty, is
  none of the resources react-docs, node-docs, python-docs and general and is no property
  name that objects inherit, the tool returns the answer of the \<open>catch\<close> block with the
  supplied domain, the extracted topics and the error text ``Error: Unknown domain: ''
  followed by the domain. (An empty supplied domain counts as absent: the domain is then
  determined from the query.) The tool is a total function: it returns an answer in
  every case.
\<close>

theorem unknown_domain_reported:
  assumes "d \<noteq> []"
      and "d \<notin> {''react-docs'', ''node-docs'', ''python-docs'', ''general''}"
      and "d \<notin> set objectPrototypeKeys"
  shows "fetchDocumentationTool w query (Some d)
     = Failure d (extractTopics query d) ''Error fetching documentation for this domain.''
         (''Error: Unknown domain: '' @ d)"
proof -
  from assms(2,3)
  have "getProperty resources d = (Undefined :: (world \<Rightarrow> string option \<Rightarrow> resourceHandler) property)"
    by (simp add: getProperty_def resources_unknown)
  with assms(1) show ?thesis
    by (simp add: fetchDocumentationTool_def tryFetch_def Let_def)
qed

theorem unknown_domain_reported_witness:
  "''ruby-docs'' \<noteq> [] \<and>
   ''ruby-docs'' \<notin> {''react-docs'', ''node-docs'', ''python-docs'', ''general''} \<and>
   ''ruby-docs'' \<notin> set objectPrototypeKeys \<and>
   fetchDocumentationTool \<lparr>fetch = Map.empty, now = ''2025-01-01T00:00:00.000Z''\<rparr>
       ''How do I install 'bundler' gems?'' (Some ''ruby-docs'')
     = Failure ''ruby-docs'' [''bundler''] ''Error fetching documentation for this domain.''
         ''Error: Unknown domain: ruby-docs''"
proof -
  have h1: "''ruby-docs'' \<noteq> []" by simp
  have h2: "''ruby-docs'' \<notin> {''react-docs'', ''node-docs'', ''python-docs'', ''general''}" by simp
  have h3: "''ruby-docs'' \<notin> set objectPrototypeKeys" by (simp add: objectPrototypeKeys_def)
  have t: "extractTopics ''How do I install 'bundler' gems?'' ''ruby-docs'' = [''bundler'']"
    by code_simp
  from unknown_domain_reported[OF h1 h2 h3,
      of "\<lparr>fetch = Map.empty, now = ''2025-01-01T00:00:00.000Z''\<rparr>"
         "''How do I install 'bundler' gems?''"] t h1 h2 h3
  show ?thesis by simp
qed

text \<open>
  With the empty string as the supplied domain, the answer names the domain determined
  from the query and has no error.
\<close>

theorem empty_domain_counterexample:
  "fetchDocumentationTool \<lparr>fetch = Map.empty, now = ''2025-01-01T00:00:00.000Z''\<rparr>
       ''Explain props in React'' (Some '''')
     = Documentation ''react-docs'' [''props'']
         (Some ''https://react.dev/learn/passing-props-to-a-component'')
         ''Unable to fetch documentation content.''
         ''https://react.dev/learn/passing-props-to-a-component''"
  by code_simp

text \<open>
  A supplied domain that names an inherited property passes the test for an unknown
  domain; the call of its missing handler throws inside the \<open>try\<close> block, and the answer
  reports that error.
\<close>

lemma inherited_domain_type_error:
  assumes "d \<in> set objectPrototypeKeys"
  shows "fetchDocumentationTool w query (Some d)
     = Failure d (extractTopics query d) ''Error fetching documentation for this domain.''
         ''TypeError: resource.handler is not a function''"
proof -
  from assms have k: "d \<noteq> [] \<and> d \<notin> {''react-docs'', ''node-docs'', ''python-docs'', ''general''}"
    by (auto simp: objectPrototypeKeys_def)
  with assms
  have "getProperty resources d = (Inherited :: (world \<Rightarrow> string option \<Rightarrow> resourceHandler) property)"
    by (simp add: getProperty_def resources_unknown)
  with k show ?thesis
    by (simp add: fetchDocumentationTool_def tryFetch_def Let_def)
qed

end
